theory Spec2Isabelle
  imports Complex_Main "HOL-Library.Multiset"
begin

section \<open>Ga-68 planner: data model\<close>

text \<open>
  The planner keeps every datetime as a local string \<^verbatim>\<open>YYYY-MM-DDTHH:MM\<close>. The embedding
  holds such a string as the five numbers that the regular expression of
  \<^verbatim>\<open>parseLocalDateTimeYYYYMMDDTHHMM\<close> captures from it, and a \<^verbatim>\<open>Date\<close> as its time value in
  milliseconds. Conventions of the embedding:
  \<^item> JavaScript numbers are real numbers (no rounding, no NaN, no infinity);
  \<^item> a \<^verbatim>\<open>Date\<close> is never invalid, and the local time zone has a constant offset, so that the
    difference of two time values is the difference of the local wall-clock times;
  \<^item> strings outside the \<^verbatim>\<open>YYYY-MM-DDTHH:MM\<close> format (the fallback \<^verbatim>\<open>new Date(s)\<close> of the
    parser) are outside the model;
  \<^item> a field that the type declares as \<^verbatim>\<open>number\<close> holds a number, so that the defaults of
    \<^verbatim>\<open>efficiency_pct ?? 60\<close>, \<^verbatim>\<open>prep_minutes ?? 15\<close>, \<^verbatim>\<open>travel_minutes ?? 0\<close> and
    \<^verbatim>\<open>requested_mCi_at_cal ?? 0\<close> are never taken; a field that the type declares as optional
    is an option.
\<close>

record LocalDT =
  dt_year :: int
  dt_month :: int
  dt_day :: int
  dt_hour :: int
  dt_minute :: int

type_synonym Date = int

record Generator =
  id_gen :: string
  activity_mCi :: real
  efficiency_pct :: real
  calibration_dt :: LocalDT
  last_eluted_dt :: LocalDT
  total_eluted_today_mCi :: "real option"
  wearDate :: "string option"

datatype Product = PSMA | Dotatate | Research

record Order =
  id_ord :: string
  hospitalId :: string
  product :: Product
  requested_mCi_at_cal :: real
  calibration_dt_ord :: LocalDT
  prep_minutes :: real
  travel_minutes :: real
  assignedGeneratorIds :: "string list option"
  assigned_elute_dt :: "LocalDT option"
  assigned_delta_minutes :: "real list option"
  notes_ord :: "string option"

section \<open>Constants\<close>

definition HALF_LIFE_GA_MIN :: real where
  "HALF_LIFE_GA_MIN = 67.71"

definition HALF_LIFE_GE_DAYS :: real where
  "HALF_LIFE_GE_DAYS = 270.95"

definition LN2 :: real where
  "LN2 = ln 2"

definition LAMBDA_GA :: real where
  "LAMBDA_GA = LN2 / HALF_LIFE_GA_MIN"

definition LAMBDA_GE :: real where
  "LAMBDA_GE = LN2 / (HALF_LIFE_GE_DAYS * 24 * 60)"

section \<open>The calendar of the Date object\<close>

text \<open>
  The day and time arithmetic of ECMAScript (Day, TimeWithinDay, DaysInYear, DayFromYear,
  YearFromTime, MonthFromTime, DateFromTime, MakeTime, MakeDay, MakeDate), on local time
  values. \<open>YearFromDay\<close> searches downwards from a year that is not too small.
\<close>

definition msPerDay :: int where
  "msPerDay = 86400000"

definition msPerMinute :: int where
  "msPerMinute = 60000"

definition Day :: "Date \<Rightarrow> int" where
  "Day t = t div msPerDay"

definition TimeWithinDay :: "Date \<Rightarrow> int" where
  "TimeWithinDay t = t mod msPerDay"

definition DaysInYear :: "int \<Rightarrow> int" where
  "DaysInYear y =
     (if y mod 4 \<noteq> 0 then 365
      else if y mod 100 \<noteq> 0 then 366
      else if y mod 400 \<noteq> 0 then 365
      else 366)"

definition DayFromYear :: "int \<Rightarrow> int" where
  "DayFromYear y =
     365 * (y - 1970) + (y - 1969) div 4 - (y - 1901) div 100 + (y - 1601) div 400"

text \<open>Each year starts \<open>DaysInYear\<close> days after the year before; the search below ends by it.\<close>

lemma div_succ_int:
  fixes a k :: int
  assumes k: "0 < k"
  shows "(a + 1) div k = (if (a + 1) mod k = 0 then a div k + 1 else a div k)"
proof -
  have r: "0 \<le> a mod k" "a mod k < k" using k by simp_all
  have dm: "k * (a div k) + a mod k = a" by simp
  show ?thesis
  proof (cases "a mod k + 1 = k")
    case True
    with dm have "a + 1 = k * (a div k) + k" by linarith
    then have "a + 1 = k * (a div k + 1) + 0"
      by (simp add: algebra_simps)
    then have "(a + 1) div k = a div k + 1" "(a + 1) mod k = 0"
      using k int_div_pos_eq [of "a + 1" k "a div k + 1" 0]
        int_mod_pos_eq [of "a + 1" k "a div k + 1" 0]
      by simp_all
    then show ?thesis by simp
  next
    case False
    then have lt: "a mod k + 1 < k" using r by linarith
    from dm have "a + 1 = k * (a div k) + (a mod k + 1)"
      by linarith
    then have "(a + 1) div k = a div k" "(a + 1) mod k = a mod k + 1"
      using lt r int_div_pos_eq [of "a + 1" k "a div k" "a mod k + 1"]
        int_mod_pos_eq [of "a + 1" k "a div k" "a mod k + 1"]
      by simp_all
    then show ?thesis using r by simp
  qed
qed

lemma mod_shift4: "((y::int) - 1969 + 1) mod 4 = 0 \<longleftrightarrow> y mod 4 = 0"
  using mod_mult_self1 [of y "- 492" 4] by simp

lemma mod_shift100: "((y::int) - 1901 + 1) mod 100 = 0 \<longleftrightarrow> y mod 100 = 0"
  using mod_mult_self1 [of y "- 19" 100] by simp

lemma mod_shift400: "((y::int) - 1601 + 1) mod 400 = 0 \<longleftrightarrow> y mod 400 = 0"
  using mod_mult_self1 [of y "- 4" 400] by simp

lemma mod_100_4: "(y::int) mod 100 = 0 \<Longrightarrow> y mod 4 = 0"
proof -
  assume "y mod 100 = 0"
  then have "100 dvd y" by (simp add: dvd_eq_mod_eq_0)
  moreover have "(4::int) dvd 100" by simp
  ultimately have "4 dvd y" by (rule dvd_trans [rotated])
  then show ?thesis by (simp add: dvd_eq_mod_eq_0)
qed

lemma mod_400_100: "(y::int) mod 400 = 0 \<Longrightarrow> y mod 100 = 0"
proof -
  assume "y mod 400 = 0"
  then have "400 dvd y" by (simp add: dvd_eq_mod_eq_0)
  moreover have "(100::int) dvd 400" by simp
  ultimately have "100 dvd y" by (rule dvd_trans [rotated])
  then show ?thesis by (simp add: dvd_eq_mod_eq_0)
qed

lemma DayFromYear_Suc: "DayFromYear (y + 1) = DayFromYear y + DaysInYear y"
proof -
  have e4: "(y + 1 - 1969) div 4 =
      (if y mod 4 = 0 then (y - 1969) div 4 + 1 else (y - 1969) div 4)"
    using div_succ_int [of 4 "y - 1969"] mod_shift4 [of y] by (simp add: algebra_simps)
  have e100: "(y + 1 - 1901) div 100 =
      (if y mod 100 = 0 then (y - 1901) div 100 + 1 else (y - 1901) div 100)"
    using div_succ_int [of 100 "y - 1901"] mod_shift100 [of y] by (simp add: algebra_simps)
  have e400: "(y + 1 - 1601) div 400 =
      (if y mod 400 = 0 then (y - 1601) div 400 + 1 else (y - 1601) div 400)"
    using div_succ_int [of 400 "y - 1601"] mod_shift400 [of y] by (simp add: algebra_simps)
  show ?thesis
    unfolding DayFromYear_def DaysInYear_def e4 e100 e400
    using mod_100_4 [of y] mod_400_100 [of y] by auto
qed

lemma DaysInYear_bounds: "365 \<le> DaysInYear y" "DaysInYear y \<le> 366"
  by (simp_all add: DaysInYear_def)

lemma DayFromYear_pred_less: "DayFromYear (y - 1) < DayFromYear y"
  using DayFromYear_Suc [of "y - 1"] DaysInYear_bounds(1) [of "y - 1"] by simp

function year_down :: "int \<Rightarrow> int \<Rightarrow> int" where
  "year_down y n = (if n < DayFromYear y then year_down (y - 1) n else y)"
  by pat_completeness auto
termination
proof (relation "measure (\<lambda>(y, n). nat (DayFromYear y - n))")
  show "wf (measure (\<lambda>(y, n). nat (DayFromYear y - n)))"
    by simp
next
  fix y n :: int
  assume a: "n < DayFromYear y"
  have "nat (DayFromYear (y - 1) - n) < nat (DayFromYear y - n)"
    using DayFromYear_pred_less [of y] a by linarith
  then show "((y - 1, n), (y, n)) \<in> measure (\<lambda>(y, n). nat (DayFromYear y - n))"
    by simp
qed

declare year_down.simps [simp del]

definition YearFromDay :: "int \<Rightarrow> int" where
  "YearFromDay n =
     year_down (if 0 \<le> n then 1970 + n div 365 else 1970 + n div 366) n"

definition YearFromTime :: "Date \<Rightarrow> int" where
  "YearFromTime t = YearFromDay (Day t)"

definition InLeapYear :: "Date \<Rightarrow> bool" where
  "InLeapYear t = (DaysInYear (YearFromTime t) = 366)"

definition DayWithinYear :: "Date \<Rightarrow> int" where
  "DayWithinYear t = Day t - DayFromYear (YearFromTime t)"

text \<open>The day within the year on which month \<open>m\<close> (0 is January) starts.\<close>

definition monthStart :: "bool \<Rightarrow> int \<Rightarrow> int" where
  "monthStart leap m =
     (let l = (if leap then 1 else 0) in
      if m = 0 then 0
      else if m = 1 then 31
      else if m = 2 then 59 + l
      else if m = 3 then 90 + l
      else if m = 4 then 120 + l
      else if m = 5 then 151 + l
      else if m = 6 then 181 + l
      else if m = 7 then 212 + l
      else if m = 8 then 243 + l
      else if m = 9 then 273 + l
      else if m = 10 then 304 + l
      else 334 + l)"

definition MonthFromTime :: "Date \<Rightarrow> int" where
  "MonthFromTime t =
     (let d = DayWithinYear t; leap = InLeapYear t in
      if d < monthStart leap 1 then 0
      else if d < monthStart leap 2 then 1
      else if d < monthStart leap 3 then 2
      else if d < monthStart leap 4 then 3
      else if d < monthStart leap 5 then 4
      else if d < monthStart leap 6 then 5
      else if d < monthStart leap 7 then 6
      else if d < monthStart leap 8 then 7
      else if d < monthStart leap 9 then 8
      else if d < monthStart leap 10 then 9
      else if d < monthStart leap 11 then 10
      else 11)"

definition DateFromTime :: "Date \<Rightarrow> int" where
  "DateFromTime t = DayWithinYear t - monthStart (InLeapYear t) (MonthFromTime t) + 1"

definition HourFromTime :: "Date \<Rightarrow> int" where
  "HourFromTime t = (TimeWithinDay t div 3600000) mod 24"

definition MinFromTime :: "Date \<Rightarrow> int" where
  "MinFromTime t = (TimeWithinDay t div msPerMinute) mod 60"

definition MakeTime :: "int \<Rightarrow> int \<Rightarrow> int \<Rightarrow> int \<Rightarrow> int" where
  "MakeTime h m s ms = h * 3600000 + m * msPerMinute + s * 1000 + ms"

definition MakeDay :: "int \<Rightarrow> int \<Rightarrow> int \<Rightarrow> int" where
  "MakeDay year month date =
     (let ym = year + month div 12; mn = month mod 12 in
      DayFromYear ym + monthStart (DaysInYear ym = 366) mn + date - 1)"

definition MakeDate :: "int \<Rightarrow> int \<Rightarrow> Date" where
  "MakeDate day time = day * msPerDay + time"

text \<open>\<^verbatim>\<open>new Date(y, m, d, h, mi, 0, 0)\<close>: a year from 0 to 99 means 1900 + year.\<close>

definition new_Date_fields :: "int \<Rightarrow> int \<Rightarrow> int \<Rightarrow> int \<Rightarrow> int \<Rightarrow> Date" where
  "new_Date_fields y m d h mi =
     (let yr = (if 0 \<le> y \<and> y \<le> 99 then 1900 + y else y) in
      MakeDate (MakeDay yr m d) (MakeTime h mi 0 0))"

text \<open>\<^verbatim>\<open>new Date(value)\<close> on a number truncates it to whole milliseconds.\<close>

definition new_Date_value :: "real \<Rightarrow> Date" where
  "new_Date_value v = (if 0 \<le> v then \<lfloor>v\<rfloor> else \<lceil>v\<rceil>)"

definition setFullYear :: "Date \<Rightarrow> int \<Rightarrow> Date" where
  "setFullYear t y = MakeDate (MakeDay y (MonthFromTime t) (DateFromTime t)) (TimeWithinDay t)"

definition setDate :: "Date \<Rightarrow> int \<Rightarrow> Date" where
  "setDate t dt = MakeDate (MakeDay (YearFromTime t) (MonthFromTime t) dt) (TimeWithinDay t)"

definition setHours :: "Date \<Rightarrow> int \<Rightarrow> int \<Rightarrow> int \<Rightarrow> int \<Rightarrow> Date" where
  "setHours t h m s ms = MakeDate (Day t) (MakeTime h m s ms)"

section \<open>Helpers\<close>

definition minutesBetween :: "Date \<Rightarrow> Date \<Rightarrow> real" where
  "minutesBetween a b = (real_of_int b - real_of_int a) / 60000"

definition parseLocalDateTimeYYYYMMDDTHHMM :: "LocalDT \<Rightarrow> Date" where
  "parseLocalDateTimeYYYYMMDDTHHMM s =
     new_Date_fields (dt_year s) (dt_month s - 1) (dt_day s) (dt_hour s) (dt_minute s)"

definition formatLocal :: "Date \<Rightarrow> LocalDT" where
  "formatLocal dt =
     \<lparr>dt_year = YearFromTime dt, dt_month = MonthFromTime dt + 1, dt_day = DateFromTime dt,
      dt_hour = HourFromTime dt, dt_minute = MinFromTime dt\<rparr>"

text \<open>
  Text of numbers: a whole number in decimal, \<^verbatim>\<open>pad2\<close>, \<^verbatim>\<open>toFixed(2)\<close> (below \<open>10^21\<close>, where
  JavaScript still prints positional digits), \<^verbatim>\<open>join\<close>, and the characters of a datetime.
\<close>

fun show_nat :: "nat \<Rightarrow> string" where
  "show_nat n =
     (if n < 10 then [''0123456789'' ! n]
      else show_nat (n div 10) @ [''0123456789'' ! (n mod 10)])"

declare show_nat.simps [simp del]

definition show_int :: "int \<Rightarrow> string" where
  "show_int i = (if i < 0 then ''-'' @ show_nat (nat (- i)) else show_nat (nat i))"

definition pad2 :: "int \<Rightarrow> string" where
  "pad2 n = (if n < 10 then ''0'' @ show_int n else show_int n)"

definition toFixed2 :: "real \<Rightarrow> string" where
  "toFixed2 x =
     (let s = (if x < 0 then ''-'' else []);
          n = nat \<lfloor>\<bar>x\<bar> * 100 + 1 / 2\<rfloor>
      in s @ show_nat (n div 100) @ ''.'' @ pad2 (int (n mod 100)))"

fun join :: "string \<Rightarrow> string list \<Rightarrow> string" where
  "join sep [] = []"
| "join sep [x] = x"
| "join sep (x # y # ys) = x @ sep @ join sep (y # ys)"

definition dt_text :: "LocalDT \<Rightarrow> string" where
  "dt_text s =
     show_int (dt_year s) @ ''-'' @ pad2 (dt_month s) @ ''-'' @ pad2 (dt_day s) @ ''T''
       @ pad2 (dt_hour s) @ '':'' @ pad2 (dt_minute s)"

section \<open>Expiry helpers\<close>

definition generatorExpiryDate :: "Generator \<Rightarrow> Date" where
  "generatorExpiryDate gen =
     (let cal = parseLocalDateTimeYYYYMMDDTHHMM (calibration_dt gen);
          exp0 = cal;
          exp1 = setFullYear exp0 (YearFromTime exp0 + 1);
          exp2 = setDate exp1 (DateFromTime exp1 - 1);
          exp3 = setHours exp2 23 59 0 0
      in exp3)"

definition isGeneratorExpired :: "Generator \<Rightarrow> Date \<Rightarrow> bool" where
  "isGeneratorExpired gen eluteDt = (eluteDt > generatorExpiryDate gen)"

section \<open>Physics\<close>

definition parentAtTime_mCi :: "Generator \<Rightarrow> Date \<Rightarrow> real" where
  "parentAtTime_mCi gen eluteDt =
     (let cal = parseLocalDateTimeYYYYMMDDTHHMM (calibration_dt gen);
          minutes = minutesBetween cal eluteDt;
          A0 = activity_mCi gen
      in A0 * exp (- LAMBDA_GE * minutes))"

record Availability =
  available :: real
  eligible :: bool
  reason :: "string option"
  deltaSinceLastMin :: real

definition availableAtElute_mCi :: "Generator \<Rightarrow> Date \<Rightarrow> real \<Rightarrow> Availability" where
  "availableAtElute_mCi gen eluteDt minLockMinutes =
     (let last = parseLocalDateTimeYYYYMMDDTHHMM (last_eluted_dt gen);
          dtMin = max 0 (minutesBetween last eluteDt);
          eligibleLock = (dtMin \<ge> minLockMinutes);
          expired = isGeneratorExpired gen eluteDt;
          parent = parentAtTime_mCi gen eluteDt;
          efficiency = efficiency_pct gen / 100;
          available = parent * efficiency * (1 - exp (- LAMBDA_GA * dtMin));
          eligible = (eligibleLock \<and> \<not> expired);
          reason = (if expired then Some ''Expired''
                    else if eligibleLock then None
                    else Some (''Lock: needs '' @ show_int \<lceil>minLockMinutes - dtMin\<rceil>
                                 @ '' more min''))
      in \<lparr>available = available, eligible = eligible, reason = reason,
          deltaSinceLastMin = dtMin\<rparr>)"

record Required =
  required :: real
  eluteDt :: Date

definition requiredAtElute_mCi :: "Order \<Rightarrow> Required" where
  "requiredAtElute_mCi order =
     (let calDt = parseLocalDateTimeYYYYMMDDTHHMM (calibration_dt_ord order);
          deltaMinutes = prep_minutes order + travel_minutes order;
          eluteDt = new_Date_value (real_of_int calDt - deltaMinutes * 60000);
          required = requested_mCi_at_cal order * exp (LAMBDA_GA * deltaMinutes)
      in \<lparr>required = required, eluteDt = eluteDt\<rparr>)"

section \<open>Objects and arrays\<close>

text \<open>
  Generators are JavaScript objects: the assignment policy changes them in place, and the
  callers keep references to them. The store holds one generator per address (the position
  in the list); an array of generators is a list of addresses. \<^verbatim>\<open>{ ...g }\<close> allocates a new
  object with the fields of \<open>g\<close>.
\<close>

type_synonym ref = nat
type_synonym store = "Generator list"

definition alloc :: "store \<Rightarrow> Generator \<Rightarrow> store \<times> ref" where
  "alloc h g = (h @ [g], length h)"

text \<open>\<^verbatim>\<open>gens.map((g) => ({ ...f(g) }))\<close>: a new object for every element, in order.\<close>

fun map_new :: "(Generator \<Rightarrow> Generator) \<Rightarrow> store \<Rightarrow> ref list \<Rightarrow> store \<times> ref list" where
  "map_new f h [] = (h, [])"
| "map_new f h (r # rs) =
     (let (h1, r1) = alloc h (f (h ! r));
          (h2, rs1) = map_new f h1 rs
      in (h2, r1 # rs1))"

text \<open>\<^verbatim>\<open>Object.fromEntries\<close>: a later entry replaces an earlier one with the same key.\<close>

definition fromEntries :: "(string \<times> 'a) list \<Rightarrow> (string \<rightharpoonup> 'a)" where
  "fromEntries es = map_of (rev es)"

text \<open>
  \<^verbatim>\<open>Array.prototype.sort\<close> with a comparison function is stable: an element goes before
  the first element that the comparison does not put before it.
\<close>

fun insert_by :: "('a \<Rightarrow> 'a \<Rightarrow> real) \<Rightarrow> 'a \<Rightarrow> 'a list \<Rightarrow> 'a list" where
  "insert_by cmp x [] = [x]"
| "insert_by cmp x (y # ys) =
     (if cmp x y \<le> 0 then x # y # ys else y # insert_by cmp x ys)"

definition sort_by :: "('a \<Rightarrow> 'a \<Rightarrow> real) \<Rightarrow> 'a list \<Rightarrow> 'a list" where
  "sort_by cmp xs = foldr (insert_by cmp) xs []"

section \<open>Wear normalization\<close>

fun normalizeDailyWear :: "store \<Rightarrow> ref list \<Rightarrow> string \<Rightarrow> store \<times> ref list" where
  "normalizeDailyWear h [] dayYYYYMMDD = (h, [])"
| "normalizeDailyWear h (g # gens) dayYYYYMMDD =
     (if wearDate (h ! g) \<noteq> Some dayYYYYMMDD then
        (let (h1, g1) = alloc h ((h ! g)\<lparr>total_eluted_today_mCi := Some 0,
                                        wearDate := Some dayYYYYMMDD\<rparr>);
             (h2, gens1) = normalizeDailyWear h1 gens dayYYYYMMDD
         in (h2, g1 # gens1))
      else
        (let (h2, gens1) = normalizeDailyWear h gens dayYYYYMMDD
         in (h2, g # gens1)))"

section \<open>Assignment policy\<close>

text \<open>
  The platform gives two things that the policy reads: the collation of
  \<^verbatim>\<open>localeCompare\<close> (a parameter \<open>lc\<close>) and the clock behind \<^verbatim>\<open>todayLocalDate()\<close> (a parameter
  \<open>today\<close>, one value for the whole run).
\<close>

record Candidate =
  gen_c :: Generator
  available_c :: real
  eligible_c :: bool
  reason_c :: "string option"
  deltaSinceLastMin_c :: real
  efficiency_c :: real
  parentAtElute_c :: real
  wear_c :: real

text \<open>
  The candidate of one generator for one elute time. \<open>gen_c\<close> is the object as it is when
  the candidates are built; the policy reads only its \<open>id\<close>, which is never assigned.
\<close>

definition candidate :: "real \<Rightarrow> Date \<Rightarrow> Generator \<Rightarrow> Candidate" where
  "candidate minLockMinutes eluteAt g =
     (let avail = availableAtElute_mCi g eluteAt minLockMinutes
      in \<lparr>gen_c = g,
          available_c = available avail,
          eligible_c = eligible avail,
          reason_c = reason avail,
          deltaSinceLastMin_c = deltaSinceLastMin avail,
          efficiency_c = efficiency_pct g,
          parentAtElute_c = parentAtTime_mCi g eluteAt,
          wear_c = (case total_eluted_today_mCi g of None \<Rightarrow> 0 | Some w \<Rightarrow> w)\<rparr>)"

definition compareCandidates ::
  "(string \<Rightarrow> string \<Rightarrow> real) \<Rightarrow> Candidate \<Rightarrow> Candidate \<Rightarrow> real" where
  "compareCandidates lc a b =
     (if efficiency_c b \<noteq> efficiency_c a then efficiency_c b - efficiency_c a
      else if available_c b \<noteq> available_c a then available_c b - available_c a
      else if deltaSinceLastMin_c b \<noteq> deltaSinceLastMin_c a
        then deltaSinceLastMin_c b - deltaSinceLastMin_c a
      else if wear_c a \<noteq> wear_c b then wear_c a - wear_c b
      else lc (id_gen (gen_c a)) (id_gen (gen_c b)))"

record Combo =
  ids :: "string list"
  totalAvailable :: real
  deltas :: "real list"

text \<open>The two nested loops over \<open>i < j\<close>: the inner loop for one \<open>g1\<close>, then the outer loop.\<close>

fun comboInner :: "real \<Rightarrow> Candidate \<Rightarrow> Candidate list \<Rightarrow> Combo option \<Rightarrow> Combo option" where
  "comboInner req g1 [] bestCombo = bestCombo"
| "comboInner req g1 (g2 # rest) bestCombo =
     (let total = available_c g1 + available_c g2;
          combo = \<lparr>ids = [id_gen (gen_c g1), id_gen (gen_c g2)], totalAvailable = total,
                   deltas = [deltaSinceLastMin_c g1, deltaSinceLastMin_c g2]\<rparr>
      in comboInner req g1 rest
           (if total \<ge> req then
              (case bestCombo of
                 None \<Rightarrow> Some combo
               | Some b \<Rightarrow> if total > totalAvailable b then Some combo else bestCombo)
            else bestCombo))"

fun comboOuter :: "real \<Rightarrow> Candidate list \<Rightarrow> Combo option \<Rightarrow> Combo option" where
  "comboOuter req [] bestCombo = bestCombo"
| "comboOuter req (g1 # rest) bestCombo = comboOuter req rest (comboInner req g1 rest bestCombo)"

record Choice =
  assigned :: "string list"
  assignedDelta :: "real list"
  note_ch :: string

definition chooseGenerators :: "Product \<Rightarrow> Candidate list \<Rightarrow> real \<Rightarrow> Choice" where
  "chooseGenerators pr eligibles req =
     (if pr = PSMA then
        (case find (\<lambda>c. available_c c \<ge> req) eligibles of
           Some single \<Rightarrow>
             \<lparr>assigned = [id_gen (gen_c single)], assignedDelta = [deltaSinceLastMin_c single],
              note_ch = ''Single generator '' @ id_gen (gen_c single)\<rparr>
         | None \<Rightarrow>
             (case comboOuter req eligibles None of
                Some bestCombo \<Rightarrow>
                  \<lparr>assigned = ids bestCombo, assignedDelta = deltas bestCombo,
                   note_ch = ''Combined generators '' @ join '' + '' (ids bestCombo)\<rparr>
              | None \<Rightarrow> \<lparr>assigned = [], assignedDelta = [], note_ch = []\<rparr>))
      else
        (case find (\<lambda>c. available_c c \<ge> req) eligibles of
           Some single \<Rightarrow>
             \<lparr>assigned = [id_gen (gen_c single)], assignedDelta = [deltaSinceLastMin_c single],
              note_ch = ''Single generator '' @ id_gen (gen_c single)\<rparr>
         | None \<Rightarrow> \<lparr>assigned = [], assignedDelta = [], note_ch = []\<rparr>))"

text \<open>The body of \<^verbatim>\<open>for (const gid of assigned)\<close>: the object that \<open>byId\<close> has for \<open>gid\<close> is changed.\<close>

definition elute :: "(string \<rightharpoonup> ref) \<Rightarrow> string \<Rightarrow> Date \<Rightarrow> real \<Rightarrow> store \<Rightarrow> string \<Rightarrow> store" where
  "elute byId today eluteAt perGenShare h gid =
     (case byId gid of
        None \<Rightarrow> h
      | Some g \<Rightarrow>
          h[g := (h ! g)\<lparr>last_eluted_dt := formatLocal eluteAt,
                         total_eluted_today_mCi :=
                           Some ((case total_eluted_today_mCi (h ! g) of None \<Rightarrow> 0 | Some w \<Rightarrow> w)
                                 + perGenShare),
                         wearDate := Some today\<rparr>])"

record Progress =
  heap :: store
  resultOrders :: "Order list"
  msgs :: "string list"

text \<open>One turn of \<^verbatim>\<open>for (const ord of sorted)\<close> in \<^verbatim>\<open>assignOrdersEfficient\<close>.\<close>

definition assignOrder ::
  "(string \<Rightarrow> string \<Rightarrow> real) \<Rightarrow> string \<Rightarrow> real \<Rightarrow> ref list \<Rightarrow> (string \<rightharpoonup> ref)
     \<Rightarrow> Progress \<Rightarrow> Order \<Rightarrow> Progress" where
  "assignOrder lc today minLockMinutes gens byId st ord =
     (let req = requiredAtElute_mCi ord;
          candidates = map (\<lambda>g. candidate minLockMinutes (eluteDt req) (heap st ! g)) gens;
          eligibles = sort_by (compareCandidates lc) (filter eligible_c candidates);
          ch = chooseGenerators (product ord) eligibles (required req);
          oCopy = ord\<lparr>assigned_elute_dt := Some (formatLocal (eluteDt req))\<rparr>
      in if length (assigned ch) > 0 then
           \<lparr>heap = fold (\<lambda>gid h. elute byId today (eluteDt req)
                                  (required req / real (length (assigned ch))) h gid)
                        (assigned ch) (heap st),
            resultOrders = resultOrders st @
              [oCopy\<lparr>assignedGeneratorIds := Some (assigned ch),
                     assigned_delta_minutes := Some (assignedDelta ch),
                     notes_ord := Some (note_ch ch @ ''; required @ elute ''
                                          @ toFixed2 (required req) @ '' mCi'')\<rparr>],
            msgs = msgs st @
              [''Order '' @ id_ord ord @ '': assigned '' @ join '', '' (assigned ch) @ '' at ''
                 @ dt_text (formatLocal (eluteDt req))]\<rparr>
         else
           \<lparr>heap = heap st,
            resultOrders = resultOrders st @
              [oCopy\<lparr>assignedGeneratorIds := Some [],
                     assigned_delta_minutes := Some [],
                     notes_ord := Some (''Insufficient availability. Required @ elute ''
                                          @ toFixed2 (required req) @ '' mCi.'')\<rparr>],
            msgs = msgs st @ [''Order '' @ id_ord ord @ '': unmet; insufficient availability.'']\<rparr>)"

definition compareOrders :: "Order \<Rightarrow> Order \<Rightarrow> real" where
  "compareOrders a b =
     real_of_int (parseLocalDateTimeYYYYMMDDTHHMM (calibration_dt_ord a))
       - real_of_int (parseLocalDateTimeYYYYMMDDTHHMM (calibration_dt_ord b))"

record Assignment =
  orders :: "Order list"
  messages :: "string list"

text \<open>
  \<^verbatim>\<open>assignOrdersEfficient(orders, generators, { minLockMinutes })\<close>. The result is what the
  function returns and the store that it leaves.
\<close>

definition assignOrdersEfficient ::
  "(string \<Rightarrow> string \<Rightarrow> real) \<Rightarrow> string \<Rightarrow> Order list \<Rightarrow> ref list \<Rightarrow> real \<Rightarrow> store
     \<Rightarrow> Assignment \<times> store" where
  "assignOrdersEfficient lc today ords generators minLockMinutes h =
     (let (h1, gens) = map_new (\<lambda>g. g) h generators;
          byId = fromEntries (map (\<lambda>g. (id_gen (h1 ! g), g)) gens);
          sorted = sort_by compareOrders ords;
          st = fold (\<lambda>ord st. assignOrder lc today minLockMinutes gens byId st ord) sorted
                 \<lparr>heap = h1, resultOrders = [], msgs = []\<rparr>
      in (\<lparr>orders = resultOrders st, messages = msgs st\<rparr>, heap st))"

section \<open>Rescan\<close>

record Rescan =
  orders_r :: "Order list"
  updatedById :: "string \<rightharpoonup> ref"

definition runRescan ::
  "(string \<Rightarrow> string \<Rightarrow> real) \<Rightarrow> string \<Rightarrow> real \<Rightarrow> Order list \<Rightarrow> ref list \<Rightarrow> store
     \<Rightarrow> Rescan \<times> store" where
  "runRescan lc today minLockMinutes currentOrders currentGenerators h =
     (let day = today;
          (h1, copies) = map_new (\<lambda>g. g) h currentGenerators;
          (h2, baselineGens) = normalizeDailyWear h1 copies day;
          (res, h3) = assignOrdersEfficient lc today currentOrders baselineGens minLockMinutes h2;
          updatedById = fromEntries (map (\<lambda>g. (id_gen (h3 ! g), g)) baselineGens)
      in (\<lparr>orders_r = orders res, updatedById = updatedById\<rparr>, h3))"

text \<open>
  What \<^verbatim>\<open>rescanAll\<close> (and every other caller of \<open>runRescan\<close>) hands to
  \<^verbatim>\<open>idbWriteRescanAtomically\<close>: the reassigned orders, and
  \<^verbatim>\<open>generators.map((g) => reassigned.updatedById[g.id] ?? g)\<close>, as the values written.
\<close>

definition rescanWrite ::
  "(string \<Rightarrow> string \<Rightarrow> real) \<Rightarrow> string \<Rightarrow> real \<Rightarrow> Order list \<Rightarrow> ref list \<Rightarrow> store
     \<Rightarrow> Order list \<times> Generator list" where
  "rescanWrite lc today minLockMinutes ords generators h =
     (let (reassigned, h1) = runRescan lc today minLockMinutes ords generators h;
          updatedGens = map (\<lambda>g. case updatedById reassigned (id_gen (h1 ! g)) of
                                    None \<Rightarrow> g | Some u \<Rightarrow> u) generators
      in (orders_r reassigned, map (\<lambda>g. h1 ! g) updatedGens))"

section \<open>Simulation assignment\<close>

record SimOptions =
  minLockMinutes :: real
  respectLock :: bool
  treatFirstUseMax :: bool
  firstUseIgnoresLock :: "bool option"

definition candidateSim ::
  "SimOptions \<Rightarrow> bool \<Rightarrow> string set \<Rightarrow> Date \<Rightarrow> Generator \<Rightarrow> Candidate" where
  "candidateSim options ignoreLockOnFirst usedFirst eluteAt g =
     (if isGeneratorExpired g eluteAt then
        \<lparr>gen_c = g,
         available_c = 0,
         eligible_c = False,
         reason_c = Some ''Expired'',
         deltaSinceLastMin_c = 0,
         efficiency_c = efficiency_pct g,
         parentAtElute_c = parentAtTime_mCi g eluteAt,
         wear_c = (case total_eluted_today_mCi g of None \<Rightarrow> 0 | Some w \<Rightarrow> w)\<rparr>
      else
        (let baseline = availableAtElute_mCi g eluteAt
                          (if respectLock options then minLockMinutes options else 0);
             firstUse = (treatFirstUseMax options \<and> id_gen g \<notin> usedFirst);
             available = (if firstUse then parentAtTime_mCi g eluteAt * (efficiency_pct g / 100)
                          else available baseline);
             eligible = (if firstUse then
                           (\<not> isGeneratorExpired g eluteAt \<and>
                            (if ignoreLockOnFirst then True
                             else if respectLock options then eligible baseline else True))
                         else (eligible baseline \<or> \<not> respectLock options));
             deltaSinceLastMin = deltaSinceLastMin baseline
         in \<lparr>gen_c = g,
             available_c = available,
             eligible_c = eligible,
             reason_c = None,
             deltaSinceLastMin_c = deltaSinceLastMin,
             efficiency_c = efficiency_pct g,
             parentAtElute_c = parentAtTime_mCi g eluteAt,
             wear_c = (case total_eluted_today_mCi g of None \<Rightarrow> 0 | Some w \<Rightarrow> w)\<rparr>))"

record SimProgress =
  heap_s :: store
  usedFirst_s :: "string set"
  resultOrders_s :: "Order list"
  msgs_s :: "string list"

text \<open>One turn of \<^verbatim>\<open>for (const ord of sorted)\<close> in \<^verbatim>\<open>assignOrdersEfficientSim\<close>.\<close>

definition simOrder ::
  "(string \<Rightarrow> string \<Rightarrow> real) \<Rightarrow> SimOptions \<Rightarrow> bool \<Rightarrow> ref list \<Rightarrow> SimProgress \<Rightarrow> Order
     \<Rightarrow> SimProgress" where
  "simOrder lc options ignoreLockOnFirst gens st ord =
     (let req = requiredAtElute_mCi ord;
          candidates = map (\<lambda>g. candidateSim options ignoreLockOnFirst (usedFirst_s st)
                                  (eluteDt req) (heap_s st ! g)) gens;
          eligibles = sort_by (compareCandidates lc) (filter eligible_c candidates);
          ch = chooseGenerators (product ord) eligibles (required req);
          oCopy = ord\<lparr>assigned_elute_dt := Some (formatLocal (eluteDt req))\<rparr>
      in if length (assigned ch) > 0 then
           \<lparr>heap_s = heap_s st,
            usedFirst_s =
              (let u = insert (assigned ch ! 0) (usedFirst_s st)
               in if length (assigned ch) = 2 then insert (assigned ch ! 1) u else u),
            resultOrders_s = resultOrders_s st @
              [oCopy\<lparr>assignedGeneratorIds := Some (assigned ch),
                     assigned_delta_minutes := Some (assignedDelta ch),
                     notes_ord := Some (note_ch ch @ ''; required @ elute ''
                                          @ toFixed2 (required req) @ '' mCi (simulation)'')\<rparr>],
            msgs_s = msgs_s st @
              [''Sim '' @ id_ord ord @ '': assigned '' @ join '', '' (assigned ch) @ '' at ''
                 @ dt_text (formatLocal (eluteDt req))]\<rparr>
         else
           \<lparr>heap_s = heap_s st,
            usedFirst_s = usedFirst_s st,
            resultOrders_s = resultOrders_s st @
              [oCopy\<lparr>assignedGeneratorIds := Some [],
                     assigned_delta_minutes := Some [],
                     notes_ord := Some (''Unmet (simulation). Required @ elute ''
                                          @ toFixed2 (required req) @ '' mCi.'')\<rparr>],
            msgs_s = msgs_s st @ [''Sim '' @ id_ord ord @ '': unmet.'']\<rparr>)"

definition assignOrdersEfficientSim ::
  "(string \<Rightarrow> string \<Rightarrow> real) \<Rightarrow> Order list \<Rightarrow> ref list \<Rightarrow> SimOptions \<Rightarrow> store
     \<Rightarrow> Assignment \<times> store" where
  "assignOrdersEfficientSim lc ords generators options h =
     (let (h1, gens) = map_new (\<lambda>g. g) h generators;
          ignoreLockOnFirst = (case firstUseIgnoresLock options of None \<Rightarrow> True | Some b \<Rightarrow> b);
          sorted = sort_by compareOrders ords;
          st = fold (\<lambda>ord st. simOrder lc options ignoreLockOnFirst gens st ord) sorted
                 \<lparr>heap_s = h1, usedFirst_s = {}, resultOrders_s = [], msgs_s = []\<rparr>
      in (\<lparr>orders = resultOrders_s st, messages = msgs_s st\<rparr>, heap_s st))"

section \<open>Facts about the decay model\<close>

lemma LAMBDA_GA_pos: "0 < LAMBDA_GA"
  by (simp add: LAMBDA_GA_def LN2_def HALF_LIFE_GA_MIN_def)

lemma LAMBDA_GE_pos: "0 < LAMBDA_GE"
  by (simp add: LAMBDA_GE_def LN2_def HALF_LIFE_GE_DAYS_def)














section \<open>Facts about the calendar\<close>

text \<open>
  The year that \<open>YearFromDay\<close> finds is the year of the day: days and calendar fields
  determine each other.
\<close>

lemma DayFromYear_1970: "DayFromYear 1970 = 0"
  by (simp add: DayFromYear_def)

lemma DayFromYear_add_ge: "DayFromYear y + 365 * int k \<le> DayFromYear (y + int k)"
proof (induction k)
  case 0
  then show ?case by simp
next
  case (Suc k)
  have "DayFromYear (y + int (Suc k)) = DayFromYear (y + int k) + DaysInYear (y + int k)"
    using DayFromYear_Suc [of "y + int k"] by (simp add: algebra_simps)
  with Suc DaysInYear_bounds(1) [of "y + int k"] show ?case by simp
qed

lemma DayFromYear_add_le: "DayFromYear (y + int k) \<le> DayFromYear y + 366 * int k"
proof (induction k)
  case 0
  then show ?case by simp
next
  case (Suc k)
  have "DayFromYear (y + int (Suc k)) = DayFromYear (y + int k) + DaysInYear (y + int k)"
    using DayFromYear_Suc [of "y + int k"] by (simp add: algebra_simps)
  with Suc DaysInYear_bounds(2) [of "y + int k"] show ?case by simp
qed

lemma DayFromYear_strict_mono:
  assumes "a < b"
  shows "DayFromYear a < DayFromYear b"
proof -
  obtain k where k: "b = a + int (Suc k)"
    using assms by (metis zless_iff_Suc_zadd)
  from DayFromYear_add_ge [of a "Suc k"] show ?thesis unfolding k by simp
qed

lemma DayFromYear_mono: "a \<le> b \<Longrightarrow> DayFromYear a \<le> DayFromYear b"
  using DayFromYear_strict_mono [of a b] by (cases "a = b") simp_all

lemma year_down_spec:
  "n < DayFromYear (y + 1) \<Longrightarrow>
     DayFromYear (year_down y n) \<le> n \<and> n < DayFromYear (year_down y n + 1)"
proof (induction y n rule: year_down.induct)
  case (1 y n)
  show ?case
  proof (cases "n < DayFromYear y")
    case True
    then have "n < DayFromYear (y - 1 + 1)" by simp
    from "1.IH" [OF True this] True show ?thesis
      by (subst (1 2) year_down.simps) simp
  next
    case False
    with "1.prems" show ?thesis
      by (subst (1 2) year_down.simps) simp
  qed
qed

lemma less_next_multiple:
  fixes n k :: int
  assumes "0 < k"
  shows "n < k * (n div k + 1)"
proof -
  have m: "n mod k < k" using assms by simp
  have e: "k * (n div k) + n mod k = n" by simp
  have "k * (n div k + 1) = k * (n div k) + k" by (simp add: algebra_simps)
  with m e show ?thesis by linarith
qed

lemma year_start_bound:
  "n < DayFromYear ((if 0 \<le> n then 1970 + n div 365 else 1970 + n div 366) + 1)"
proof (cases "0 \<le> n")
  case True
  then have k: "0 \<le> n div 365 + 1" by (simp add: pos_imp_zdiv_nonneg_iff)
  have "n < 365 * (n div 365 + 1)"
    by (rule less_next_multiple) simp
  also have "\<dots> = DayFromYear 1970 + 365 * int (nat (n div 365 + 1))"
    using k by (simp add: DayFromYear_1970)
  also have "\<dots> \<le> DayFromYear (1970 + int (nat (n div 365 + 1)))"
    by (rule DayFromYear_add_ge)
  also have "\<dots> = DayFromYear (1970 + n div 365 + 1)"
    using k by (simp add: algebra_simps)
  finally show ?thesis using True by simp
next
  case False
  then have neg: "n < 0" by simp
  then have k: "n div 366 + 1 \<le> 0" by (simp add: div_neg_pos_less0 zless_imp_add1_zle)
  define j where "j = nat (- (n div 366 + 1))"
  have jk: "int j = - (n div 366 + 1)" using k by (simp add: j_def)
  have "n < 366 * (n div 366 + 1)"
    by (rule less_next_multiple) simp
  also have "\<dots> = DayFromYear 1970 - 366 * int j"
    using jk by (simp add: DayFromYear_1970)
  also have "\<dots> \<le> DayFromYear (1970 - int j)"
    using DayFromYear_add_le [of "1970 - int j" j] by simp
  also have "1970 - int j = 1970 + n div 366 + 1"
    using jk by linarith
  finally show ?thesis using False by simp
qed

lemma YearFromDay_spec:
  "DayFromYear (YearFromDay n) \<le> n \<and> n < DayFromYear (YearFromDay n + 1)"
  unfolding YearFromDay_def by (rule year_down_spec [OF year_start_bound])

lemma YearFromDay_unique:
  assumes "DayFromYear y \<le> n" and "n < DayFromYear (y + 1)"
  shows "YearFromDay n = y"
proof (rule ccontr)
  assume ne: "YearFromDay n \<noteq> y"
  let ?r = "YearFromDay n"
  from YearFromDay_spec [of n] have r: "DayFromYear ?r \<le> n" "n < DayFromYear (?r + 1)"
    by simp_all
  from ne consider "?r < y" | "y < ?r" by linarith
  then show False
  proof cases
    case 1
    then have "DayFromYear (?r + 1) \<le> DayFromYear y" by (intro DayFromYear_mono) simp
    with r(2) assms(1) show False by simp
  next
    case 2
    then have "DayFromYear (y + 1) \<le> DayFromYear ?r" by (intro DayFromYear_mono) simp
    with r(1) assms(2) show False by simp
  qed
qed

text \<open>
  A well-formed datetime names a day of the calendar and a minute of that day, with a year from
  100 on (the \<^verbatim>\<open>Date\<close> constructor reads a year below 100 as a year of the twentieth century).
\<close>

definition DaysInMonth :: "int \<Rightarrow> int \<Rightarrow> int" where
  "DaysInMonth y m =
     (if m = 2 then (if DaysInYear y = 366 then 29 else 28)
      else if m = 4 \<or> m = 6 \<or> m = 9 \<or> m = 11 then 30
      else 31)"

definition wellFormedDT :: "LocalDT \<Rightarrow> bool" where
  "wellFormedDT s =
     (100 \<le> dt_year s \<and> 1 \<le> dt_month s \<and> dt_month s \<le> 12 \<and>
      1 \<le> dt_day s \<and> dt_day s \<le> DaysInMonth (dt_year s) (dt_month s) \<and>
      0 \<le> dt_hour s \<and> dt_hour s < 24 \<and> 0 \<le> dt_minute s \<and> dt_minute s < 60)"

lemma Day_MakeDate:
  assumes "0 \<le> tm" "tm < msPerDay"
  shows "Day (MakeDate n tm) = n" "TimeWithinDay (MakeDate n tm) = tm"
proof -
  have "MakeDate n tm = msPerDay * n + tm" by (simp add: MakeDate_def)
  moreover have "0 < msPerDay" by (simp add: msPerDay_def)
  ultimately show "Day (MakeDate n tm) = n" "TimeWithinDay (MakeDate n tm) = tm"
    using assms int_div_pos_eq [of "MakeDate n tm" msPerDay n tm]
      int_mod_pos_eq [of "MakeDate n tm" msPerDay n tm]
    by (simp_all add: Day_def TimeWithinDay_def)
qed

lemma MakeTime_range:
  assumes "0 \<le> h" "h < 24" "0 \<le> mi" "mi < 60"
  shows "0 \<le> MakeTime h mi 0 0" "MakeTime h mi 0 0 < msPerDay"
  using assms by (simp_all add: MakeTime_def msPerDay_def msPerMinute_def)

lemma TimeWithinDay_range: "0 \<le> TimeWithinDay t" "TimeWithinDay t < msPerDay"
  by (simp_all add: TimeWithinDay_def msPerDay_def)

lemma MakeDay_in_year:
  assumes "0 \<le> mo" "mo \<le> 11"
  shows "MakeDay y mo d = DayFromYear y + monthStart (DaysInYear y = 366) mo + d - 1"
proof -
  have "mo div 12 = 0" "mo mod 12 = mo" using assms by simp_all
  then show ?thesis by (simp add: MakeDay_def Let_def)
qed

lemma MakeDay_pred: "MakeDay y mo (d - 1) = MakeDay y mo d - 1"
  by (simp add: MakeDay_def Let_def)

lemma MonthFromTime_range: "0 \<le> MonthFromTime t" "MonthFromTime t \<le> 11"
  by (simp_all add: MonthFromTime_def Let_def)

lemma MakeDay_of_fields:
  "MakeDay (YearFromTime t) (MonthFromTime t) (DateFromTime t) = Day t"
proof -
  have "MakeDay (YearFromTime t) (MonthFromTime t) (DateFromTime t)
      = DayFromYear (YearFromTime t)
        + monthStart (DaysInYear (YearFromTime t) = 366) (MonthFromTime t)
        + DateFromTime t - 1"
    by (rule MakeDay_in_year [OF MonthFromTime_range])
  then show ?thesis
    by (simp add: DateFromTime_def DayWithinYear_def InLeapYear_def)
qed

lemma month_cases:
  fixes mo :: int
  assumes "0 \<le> mo" "mo \<le> 11"
  shows "mo = 0 \<or> mo = 1 \<or> mo = 2 \<or> mo = 3 \<or> mo = 4 \<or> mo = 5 \<or> mo = 6 \<or> mo = 7
         \<or> mo = 8 \<or> mo = 9 \<or> mo = 10 \<or> mo = 11"
  using assms by presburger

lemma DaysInYear_cases: "DaysInYear y = 365 \<or> DaysInYear y = 366"
  by (simp add: DaysInYear_def)

lemma day_in_year_range:
  assumes "0 \<le> mo" "mo \<le> 11" "1 \<le> d" "d \<le> DaysInMonth y (mo + 1)"
  shows "0 \<le> monthStart (DaysInYear y = 366) mo + d - 1"
    "monthStart (DaysInYear y = 366) mo + d - 1 < DaysInYear y"
  using month_cases [OF assms(1,2)] assms(3,4) DaysInYear_cases [of y]
  by (elim disjE; simp add: monthStart_def DaysInMonth_def)+

lemma fields_of_MakeDay:
  assumes mo: "0 \<le> mo" "mo \<le> 11" and d: "1 \<le> d" "d \<le> DaysInMonth y (mo + 1)"
    and t: "Day t = MakeDay y mo d"
  shows "YearFromTime t = y" "MonthFromTime t = mo" "DateFromTime t = d"
proof -
  let ?leap = "DaysInYear y = 366"
  have n: "Day t = DayFromYear y + (monthStart ?leap mo + d - 1)"
    using t MakeDay_in_year [OF mo] by simp
  from day_in_year_range [OF mo d]
  have r: "0 \<le> monthStart ?leap mo + d - 1" "monthStart ?leap mo + d - 1 < DaysInYear y" .
  have "DayFromYear y \<le> Day t" using n r(1) by linarith
  moreover have "Day t < DayFromYear (y + 1)" using n r(2) DayFromYear_Suc [of y] by linarith
  ultimately show y: "YearFromTime t = y"
    unfolding YearFromTime_def by (rule YearFromDay_unique)
  have dwy: "DayWithinYear t = monthStart ?leap mo + d - 1"
    using n y by (simp add: DayWithinYear_def)
  have leap: "InLeapYear t = ?leap" by (simp add: InLeapYear_def y)
  show m: "MonthFromTime t = mo"
    using month_cases [OF mo] d DaysInYear_cases [of y]
    by (elim disjE; simp add: MonthFromTime_def dwy leap monthStart_def DaysInMonth_def Let_def)
  show "DateFromTime t = d"
    by (simp add: DateFromTime_def dwy leap m)
qed

text \<open>
  The day before the same date of the next year, at 23:59, written as the \<^verbatim>\<open>Date\<close> constructor
  takes it: day 0 of a month is the last day of the month before, and 29 February of a year
  that has none is 1 March.
\<close>

definition lastUsableMinute :: "LocalDT \<Rightarrow> Date" where
  "lastUsableMinute D = new_Date_fields (dt_year D + 1) (dt_month D - 1) (dt_day D - 1) 23 59"

lemma generatorExpiryDate_eq:
  assumes wf: "wellFormedDT (calibration_dt gen)"
  shows "generatorExpiryDate gen = lastUsableMinute (calibration_dt gen)"
proof -
  let ?D = "calibration_dt gen"
  let ?y = "dt_year ?D" and ?mo = "dt_month ?D - 1" and ?d = "dt_day ?D"
  let ?tm = "MakeTime (dt_hour ?D) (dt_minute ?D) 0 0"
  let ?t0 = "parseLocalDateTimeYYYYMMDDTHHMM ?D"
  from wf have y: "100 \<le> ?y" and mo: "0 \<le> ?mo" "?mo \<le> 11"
    and d: "1 \<le> ?d" "?d \<le> DaysInMonth ?y (?mo + 1)"
    and hm: "0 \<le> dt_hour ?D" "dt_hour ?D < 24" "0 \<le> dt_minute ?D" "dt_minute ?D < 60"
    by (simp_all add: wellFormedDT_def)
  have t0: "?t0 = MakeDate (MakeDay ?y ?mo ?d) ?tm"
    using y by (simp add: parseLocalDateTimeYYYYMMDDTHHMM_def new_Date_fields_def Let_def)
  have day0: "Day ?t0 = MakeDay ?y ?mo ?d" and twd0: "TimeWithinDay ?t0 = ?tm"
    unfolding t0 by (rule Day_MakeDate [OF MakeTime_range [OF hm]])+
  from fields_of_MakeDay [OF mo d day0]
  have f0: "YearFromTime ?t0 = ?y" "MonthFromTime ?t0 = ?mo" "DateFromTime ?t0 = ?d" .
  let ?n1 = "MakeDay (?y + 1) ?mo ?d"
  let ?e1 = "setFullYear ?t0 (YearFromTime ?t0 + 1)"
  have e1: "?e1 = MakeDate ?n1 ?tm"
    by (simp add: setFullYear_def f0 twd0)
  have day1: "Day ?e1 = ?n1" and twd1: "TimeWithinDay ?e1 = ?tm"
    unfolding e1 by (rule Day_MakeDate [OF MakeTime_range [OF hm]])+
  let ?e2 = "setDate ?e1 (DateFromTime ?e1 - 1)"
  have "MakeDay (YearFromTime ?e1) (MonthFromTime ?e1) (DateFromTime ?e1 - 1) = ?n1 - 1"
    by (simp only: MakeDay_pred MakeDay_of_fields day1)
  then have e2: "?e2 = MakeDate (?n1 - 1) ?tm"
    by (simp add: setDate_def twd1)
  have day2: "Day ?e2 = ?n1 - 1"
    unfolding e2 by (rule Day_MakeDate [OF MakeTime_range [OF hm]])
  have e3: "setHours ?e2 23 59 0 0 = MakeDate (?n1 - 1) (MakeTime 23 59 0 0)"
    by (simp add: setHours_def day2)
  have "lastUsableMinute ?D = MakeDate (MakeDay (?y + 1) ?mo (?d - 1)) (MakeTime 23 59 0 0)"
    using y by (simp add: lastUsableMinute_def new_Date_fields_def Let_def)
  also have "\<dots> = MakeDate (?n1 - 1) (MakeTime 23 59 0 0)"
    by (simp only: MakeDay_pred)
  finally have "lastUsableMinute ?D = setHours ?e2 23 59 0 0"
    using e3 by simp
  then show ?thesis
    by (simp add: generatorExpiryDate_def Let_def)
qed

lemma expired_not_eligible:
  assumes "isGeneratorExpired gen t"
  shows "\<not> eligible (availableAtElute_mCi gen t L)"
    "\<not> eligible_c (candidate L t gen)"
    "\<not> eligible_c (candidateSim options ign used t gen)"
  using assms by (simp_all add: availableAtElute_mCi_def candidate_def candidateSim_def Let_def)

section \<open>Facts about the assignment policy\<close>

text \<open>
  The calibration time of an order, and the order as it was requested, without the fields that
  the policy writes.
\<close>

definition calTime :: "Order \<Rightarrow> int" where
  "calTime ord = parseLocalDateTimeYYYYMMDDTHHMM (calibration_dt_ord ord)"

definition request_of :: "Order \<Rightarrow> Order" where
  "request_of ord =
     ord\<lparr>assignedGeneratorIds := None, assigned_elute_dt := None,
         assigned_delta_minutes := None, notes_ord := None\<rparr>"



lemma mset_insert_by: "mset (insert_by cmp x xs) = add_mset x (mset xs)"
  by (induction xs) simp_all

lemma mset_sort_by: "mset (sort_by cmp xs) = mset xs"
  by (induction xs) (simp_all add: sort_by_def mset_insert_by)





lemma calTime_request_of [simp]: "calTime (request_of ord) = calTime ord"
  by (simp add: calTime_def request_of_def)



lemma set_sort_by: "set (sort_by cmp xs) = set xs"
  using mset_sort_by [of cmp xs] by (metis set_mset_mset)

lemma find_none: "(\<forall>c\<in>set cs. \<not> P c) \<Longrightarrow> find P cs = None"
  by (induction cs) simp_all

lemma comboInner_none:
  "(\<forall>g2\<in>set rest. available_c g1 + available_c g2 < req) \<Longrightarrow>
     comboInner req g1 rest best = best"
  by (induction rest arbitrary: best) (simp_all add: Let_def)

lemma pair_in_Cons: "z \<in> set ys \<Longrightarrow> {#y, z#} \<subseteq># mset (y # ys)"
  by (simp add: mset_subset_eq_single)

lemma comboOuter_none:
  "(\<forall>a b. {#a, b#} \<subseteq># mset cs \<longrightarrow> available_c a + available_c b < req) \<Longrightarrow>
     comboOuter req cs best = best"
proof (induction cs arbitrary: best)
  case Nil
  then show ?case by simp
next
  case (Cons y ys)
  have inner: "comboInner req y ys best = best"
  proof (rule comboInner_none, rule ballI)
    fix z assume "z \<in> set ys"
    then have "{#y, z#} \<subseteq># mset (y # ys)" by (rule pair_in_Cons)
    with Cons.prems show "available_c y + available_c z < req" by blast
  qed
  have "\<forall>a b. {#a, b#} \<subseteq># mset ys \<longrightarrow> available_c a + available_c b < req"
  proof (intro allI impI)
    fix a b assume "{#a, b#} \<subseteq># mset ys"
    also have "mset ys \<subseteq># mset (y # ys)" by simp
    finally show "available_c a + available_c b < req" using Cons.prems by blast
  qed
  then have "comboOuter req ys best = best" by (rule Cons.IH)
  with inner show ?case by simp
qed

lemma chooseGenerators_none:
  assumes single: "\<forall>c\<in>set cs. available_c c < req"
    and pair: "\<forall>a b. {#a, b#} \<subseteq># mset cs \<longrightarrow> available_c a + available_c b < req"
  shows "chooseGenerators pr cs req = \<lparr>assigned = [], assignedDelta = [], note_ch = []\<rparr>"
proof -
  have "find (\<lambda>c. available_c c \<ge> req) cs = None"
    using single by (intro find_none) (simp add: not_le)
  moreover have "comboOuter req cs None = None"
    using pair by (rule comboOuter_none)
  ultimately show ?thesis by (simp add: chooseGenerators_def)
qed

text \<open>
  A generator without its wear date, and a candidate of such a generator: what the policy reads
  of a generator does not depend on the wear date.
\<close>

definition undated :: "Generator \<Rightarrow> Generator" where
  "undated g = g\<lparr>wearDate := None\<rparr>"

definition undated_c :: "Candidate \<Rightarrow> Candidate" where
  "undated_c c = c\<lparr>gen_c := undated (gen_c c)\<rparr>"



lemma compare_undated [simp]:
  "compareCandidates lc (undated_c a) (undated_c b) = compareCandidates lc a b"
  by (simp add: compareCandidates_def undated_c_def undated_def)

lemma eligible_undated [simp]: "eligible_c (undated_c c) = eligible_c c"
  by (simp add: undated_c_def)









lemma length_elute [simp]: "length (elute byId today t share h gid) = length h"
  by (simp add: elute_def split: option.splits)

lemma length_fold_elute [simp]:
  "length (fold (\<lambda>gid h. elute byId today t share h gid) gids h) = length h"
  by (induction gids arbitrary: h) simp_all

lemma length_assignOrder [simp]:
  "length (heap (assignOrder lc today L gens byId st ord)) = length (heap st)"
  by (simp add: assignOrder_def Let_def)








section \<open>A worked day\<close>

text \<open>
  One generator of 50 mCi at 60 percent, calibrated and last eluted at 08:00, and two PSMA
  orders of 5 mCi with 15 minutes of preparation and 15 minutes of travel, to be eluted at 10:30
  and at 10:40. The lemmas of this section are the values that the functions compute on them.
\<close>

definition exT0800 :: LocalDT where
  "exT0800 = \<lparr>dt_year = 2025, dt_month = 1, dt_day = 1, dt_hour = 8, dt_minute = 0\<rparr>"

definition exT1030 :: LocalDT where
  "exT1030 = \<lparr>dt_year = 2025, dt_month = 1, dt_day = 1, dt_hour = 10, dt_minute = 30\<rparr>"

definition exT1040 :: LocalDT where
  "exT1040 = \<lparr>dt_year = 2025, dt_month = 1, dt_day = 1, dt_hour = 10, dt_minute = 40\<rparr>"

definition exG1 :: Generator where
  "exG1 = \<lparr>id_gen = ''G1'', activity_mCi = 50, efficiency_pct = 60,
            calibration_dt = exT0800, last_eluted_dt = exT0800,
            total_eluted_today_mCi = Some 0, wearDate = Some ''2025-01-01''\<rparr>"

definition exG1_eluted :: Generator where
  "exG1_eluted = exG1\<lparr>last_eluted_dt := exT1030,
                       total_eluted_today_mCi := Some (5 * exp (LAMBDA_GA * 30)),
                       wearDate := Some ''2025-01-01''\<rparr>"

definition exO1 :: Order where
  "exO1 = \<lparr>id_ord = ''O1'', hospitalId = ''H1'', product = PSMA, requested_mCi_at_cal = 5,
            calibration_dt_ord =
              \<lparr>dt_year = 2025, dt_month = 1, dt_day = 1, dt_hour = 11, dt_minute = 0\<rparr>,
            prep_minutes = 15, travel_minutes = 15,
            assignedGeneratorIds = None, assigned_elute_dt = None,
            assigned_delta_minutes = None, notes_ord = None\<rparr>"

definition exO2 :: Order where
  "exO2 = \<lparr>id_ord = ''O2'', hospitalId = ''H1'', product = PSMA, requested_mCi_at_cal = 5,
            calibration_dt_ord =
              \<lparr>dt_year = 2025, dt_month = 1, dt_day = 1, dt_hour = 11, dt_minute = 10\<rparr>,
            prep_minutes = 15, travel_minutes = 15,
            assignedGeneratorIds = None, assigned_elute_dt = None,
            assigned_delta_minutes = None, notes_ord = None\<rparr>"

definition exO1_assigned :: Order where
  "exO1_assigned =
     exO1\<lparr>assigned_elute_dt := Some exT1030,
          assignedGeneratorIds := Some [''G1''],
          assigned_delta_minutes := Some [150],
          notes_ord := Some (''Single generator G1; required @ elute ''
                               @ toFixed2 (5 * exp (LAMBDA_GA * 30)) @ '' mCi'')\<rparr>"


definition exSimOptions :: SimOptions where
  "exSimOptions = \<lparr>minLockMinutes = 20, respectLock = True, treatFirstUseMax = True,
                     firstUseIgnoresLock = Some True\<rparr>"

lemma parse_0800: "parseLocalDateTimeYYYYMMDDTHHMM exT0800 = 1735718400000"
  by code_simp


lemma parse_exO1: "parseLocalDateTimeYYYYMMDDTHHMM (calibration_dt_ord exO1) = 1735729200000"
  by code_simp

lemma parse_exO2: "parseLocalDateTimeYYYYMMDDTHHMM (calibration_dt_ord exO2) = 1735729800000"
  by code_simp

lemma format_1030: "formatLocal 1735727400000 = exT1030"
  by code_simp

lemma format_1040: "formatLocal 1735728000000 = exT1040"
  by code_simp

lemma text_1030: "dt_text exT1030 = ''2025-01-01T10:30''"
  by code_simp

lemma text_1040: "dt_text exT1040 = ''2025-01-01T10:40''"
  by code_simp

lemma expiry_exG1: "generatorExpiryDate exG1 = 1767225540000"
  by code_simp

lemma expiry_exG1_eluted: "generatorExpiryDate exG1_eluted = 1767225540000"
  using expiry_exG1 by (simp add: generatorExpiryDate_def exG1_eluted_def)

lemma exG1_fields [simp]:
  "id_gen exG1 = ''G1''" "activity_mCi exG1 = 50" "efficiency_pct exG1 = 60"
  "calibration_dt exG1 = exT0800" "last_eluted_dt exG1 = exT0800"
  "total_eluted_today_mCi exG1 = Some 0" "wearDate exG1 = Some ''2025-01-01''"
  by (simp_all add: exG1_def)

lemma exG1_eluted_fields [simp]:
  "id_gen exG1_eluted = ''G1''" "activity_mCi exG1_eluted = 50" "efficiency_pct exG1_eluted = 60"
  "calibration_dt exG1_eluted = exT0800" "last_eluted_dt exG1_eluted = exT1030"
  "total_eluted_today_mCi exG1_eluted = Some (5 * exp (LAMBDA_GA * 30))"
  "wearDate exG1_eluted = Some ''2025-01-01''"
  by (simp_all add: exG1_eluted_def)

lemma exO_fields [simp]:
  "product exO1 = PSMA" "id_ord exO1 = ''O1''" "product exO2 = PSMA" "id_ord exO2 = ''O2''"
  by (simp_all add: exO1_def exO2_def)

lemma exSimOptions_fields [simp]:
  "minLockMinutes exSimOptions = 20" "respectLock exSimOptions" "treatFirstUseMax exSimOptions"
  "firstUseIgnoresLock exSimOptions = Some True"
  by (simp_all add: exSimOptions_def)

lemma req_exO1: "requiredAtElute_mCi exO1 =
    \<lparr>required = 5 * exp (LAMBDA_GA * 30), eluteDt = 1735727400000\<rparr>"
  by (simp add: requiredAtElute_mCi_def parse_exO1 new_Date_value_def Let_def) (simp add: exO1_def)

lemma req_exO2: "requiredAtElute_mCi exO2 =
    \<lparr>required = 5 * exp (LAMBDA_GA * 30), eluteDt = 1735728000000\<rparr>"
  by (simp add: requiredAtElute_mCi_def parse_exO2 new_Date_value_def Let_def) (simp add: exO2_def)

lemma avail_exG1_1030: "availableAtElute_mCi exG1 1735727400000 20 =
    \<lparr>available = 50 * exp (- LAMBDA_GE * 150) * (60 / 100) * (1 - exp (- LAMBDA_GA * 150)),
     eligible = True, reason = None, deltaSinceLastMin = 150\<rparr>"
  by (simp add: availableAtElute_mCi_def parentAtTime_mCi_def isGeneratorExpired_def expiry_exG1
      parse_0800 minutesBetween_def Let_def)

lemma avail_exG1_1040: "availableAtElute_mCi exG1 1735728000000 20 =
    \<lparr>available = 50 * exp (- LAMBDA_GE * 160) * (60 / 100) * (1 - exp (- LAMBDA_GA * 160)),
     eligible = True, reason = None, deltaSinceLastMin = 160\<rparr>"
  by (simp add: availableAtElute_mCi_def parentAtTime_mCi_def isGeneratorExpired_def expiry_exG1
      parse_0800 minutesBetween_def Let_def)


text \<open>Bounds on the two exponentials: up to one half-life, and from two half-lives on.\<close>

lemma exp_GA_le_2:
  assumes "m \<le> 67.71"
  shows "exp (LAMBDA_GA * m) \<le> 2"
proof -
  have "LAMBDA_GA * m \<le> LAMBDA_GA * 67.71"
    using assms LAMBDA_GA_pos by (intro mult_left_mono) simp_all
  also have "\<dots> = ln 2"
    by (simp add: LAMBDA_GA_def LN2_def HALF_LIFE_GA_MIN_def)
  finally have "exp (LAMBDA_GA * m) \<le> exp (ln 2)" by (simp only: exp_le_cancel_iff)
  then show ?thesis by simp
qed

lemma exp_GA_le_quarter:
  assumes "135.42 \<le> m"
  shows "exp (- LAMBDA_GA * m) \<le> 1 / 4"
proof -
  have "LAMBDA_GA * 135.42 \<le> LAMBDA_GA * m"
    using assms LAMBDA_GA_pos by (intro mult_left_mono) simp_all
  moreover have "LAMBDA_GA * 135.42 = 2 * ln 2"
    by (simp add: LAMBDA_GA_def LN2_def HALF_LIFE_GA_MIN_def)
  ultimately have "- LAMBDA_GA * m \<le> - (2 * ln 2)" by simp
  then have "exp (- LAMBDA_GA * m) \<le> exp (- (2 * ln 2))" by (simp only: exp_le_cancel_iff)
  also have "exp (- (2 * ln 2)) = inverse ((exp (ln (2::real)))\<^sup>2)"
    by (simp only: exp_minus exp_double)
  also have "\<dots> = 1 / 4" by simp
  finally show ?thesis .
qed

lemma exp_GE_ge_half:
  assumes "m \<le> 390168"
  shows "1 / 2 \<le> exp (- LAMBDA_GE * m)"
proof -
  have "LAMBDA_GE * m \<le> LAMBDA_GE * 390168"
    using assms LAMBDA_GE_pos by (intro mult_left_mono) simp_all
  also have "\<dots> = ln 2"
    by (simp add: LAMBDA_GE_def LN2_def HALF_LIFE_GE_DAYS_def)
  finally have "- ln 2 \<le> - LAMBDA_GE * m" by simp
  then have "exp (- ln 2) \<le> exp (- LAMBDA_GE * m)" by (simp only: exp_le_cancel_iff)
  moreover have "exp (- ln 2) = 1 / (2::real)" by (simp add: exp_minus inverse_eq_divide)
  ultimately show ?thesis by simp
qed

text \<open>Enough activity for a 5 mCi order with 30 minutes of lead time.\<close>

lemma enough_activity:
  assumes m: "135.42 \<le> m" "m \<le> 390168"
  shows "5 * exp (LAMBDA_GA * 30)
         \<le> 50 * exp (- LAMBDA_GE * m) * (60 / 100) * (1 - exp (- LAMBDA_GA * m))"
proof -
  have a: "5 * exp (LAMBDA_GA * 30) \<le> 10"
    using exp_GA_le_2 [of 30] by simp
  have g: "3 / 4 \<le> 1 - exp (- LAMBDA_GA * m)"
    using exp_GA_le_quarter [OF m(1)] by simp
  have p: "1 / 2 \<le> exp (- LAMBDA_GE * m)"
    using exp_GE_ge_half [OF m(2)] .
  have "(1 / 2) * (3 / 4) \<le> exp (- LAMBDA_GE * m) * (1 - exp (- LAMBDA_GA * m))"
    by (rule mult_mono [OF p g]) simp_all
  then have "10 \<le> 50 * exp (- LAMBDA_GE * m) * (60 / 100) * (1 - exp (- LAMBDA_GA * m))"
    by simp
  with a show ?thesis by linarith
qed

lemma enough_at_first_use:
  "5 * exp (LAMBDA_GA * 30) \<le> 50 * exp (- LAMBDA_GE * 150) * (60 / 100)"
  using exp_GA_le_2 [of 30] exp_GE_ge_half [of 150] by simp

subsection \<open>The standard policy on the two orders\<close>

definition exCand1 :: Candidate where
  "exCand1 = \<lparr>gen_c = exG1,
     available_c = 50 * exp (- LAMBDA_GE * 150) * (60 / 100) * (1 - exp (- LAMBDA_GA * 150)),
     eligible_c = True, reason_c = None, deltaSinceLastMin_c = 150, efficiency_c = 60,
     parentAtElute_c = 50 * exp (- LAMBDA_GE * 150), wear_c = 0\<rparr>"

lemma cand_exG1_1030: "candidate 20 1735727400000 exG1 = exCand1"
  by (simp add: candidate_def avail_exG1_1030 exCand1_def parentAtTime_mCi_def parse_0800
      minutesBetween_def Let_def)

lemma choose_exCand1:
  "chooseGenerators PSMA [exCand1] (5 * exp (LAMBDA_GA * 30)) =
     \<lparr>assigned = [''G1''], assignedDelta = [150], note_ch = ''Single generator G1''\<rparr>"
  using enough_activity [of 150]
  by (simp add: chooseGenerators_def exCand1_def)

lemma step_exO1:
  assumes "g < length h" and "h ! g = exG1"
  shows "assignOrder lc ''2025-01-01'' 20 [g] (fromEntries [(''G1'', g)])
           \<lparr>heap = h, resultOrders = os, msgs = ms\<rparr> exO1
         = \<lparr>heap = h[g := exG1_eluted], resultOrders = os @ [exO1_assigned],
            msgs = ms @ [''Order O1: assigned G1 at 2025-01-01T10:30'']\<rparr>"
proof -
  have e: "eligible_c exCand1" by (simp add: exCand1_def)
  show ?thesis
    using assms
    by (simp add: assignOrder_def req_exO1 cand_exG1_1030 sort_by_def choose_exCand1 Let_def
        elute_def fromEntries_def format_1030 text_1030 e exG1_eluted_def exO1_assigned_def)
qed


lemma sorted_exO2_exO1: "sort_by compareOrders [exO2, exO1] = [exO1, exO2]"
  by (simp add: sort_by_def compareOrders_def parse_exO1 parse_exO2)

lemma assign_exO1:
  "assignOrdersEfficient lc ''2025-01-01'' [exO1] [Suc 0] 20 [exG1, exG1] =
     (\<lparr>orders = [exO1_assigned],
       messages = [''Order O1: assigned G1 at 2025-01-01T10:30'']\<rparr>,
      [exG1, exG1, exG1_eluted])"
  by (simp add: assignOrdersEfficient_def alloc_def sort_by_def step_exO1 Let_def)


subsection \<open>The simulation on the two orders\<close>

definition exSimCand1 :: Candidate where
  "exSimCand1 = \<lparr>gen_c = exG1,
     available_c = 50 * exp (- LAMBDA_GE * 150) * (60 / 100),
     eligible_c = True, reason_c = None, deltaSinceLastMin_c = 150, efficiency_c = 60,
     parentAtElute_c = 50 * exp (- LAMBDA_GE * 150), wear_c = 0\<rparr>"

definition exSimCand2 :: Candidate where
  "exSimCand2 = \<lparr>gen_c = exG1,
     available_c = 50 * exp (- LAMBDA_GE * 160) * (60 / 100) * (1 - exp (- LAMBDA_GA * 160)),
     eligible_c = True, reason_c = None, deltaSinceLastMin_c = 160, efficiency_c = 60,
     parentAtElute_c = 50 * exp (- LAMBDA_GE * 160), wear_c = 0\<rparr>"

lemma sim_cand_first: "candidateSim exSimOptions True {} 1735727400000 exG1 = exSimCand1"
  by (simp add: candidateSim_def avail_exG1_1030 exSimCand1_def parentAtTime_mCi_def parse_0800
      minutesBetween_def isGeneratorExpired_def expiry_exG1 Let_def)

lemma sim_cand_second: "candidateSim exSimOptions True {''G1''} 1735728000000 exG1 = exSimCand2"
  by (simp add: candidateSim_def avail_exG1_1040 exSimCand2_def parentAtTime_mCi_def parse_0800
      minutesBetween_def isGeneratorExpired_def expiry_exG1 Let_def)

lemma choose_exSimCand1:
  "chooseGenerators PSMA [exSimCand1] (5 * exp (LAMBDA_GA * 30)) =
     \<lparr>assigned = [''G1''], assignedDelta = [150], note_ch = ''Single generator G1''\<rparr>"
  using enough_at_first_use
  by (simp add: chooseGenerators_def exSimCand1_def)

lemma choose_exSimCand2:
  "chooseGenerators PSMA [exSimCand2] (5 * exp (LAMBDA_GA * 30)) =
     \<lparr>assigned = [''G1''], assignedDelta = [160], note_ch = ''Single generator G1''\<rparr>"
  using enough_activity [of 160]
  by (simp add: chooseGenerators_def exSimCand2_def)

definition exO1_simulated :: Order where
  "exO1_simulated =
     exO1\<lparr>assigned_elute_dt := Some exT1030,
          assignedGeneratorIds := Some [''G1''],
          assigned_delta_minutes := Some [150],
          notes_ord := Some (''Single generator G1; required @ elute ''
                               @ toFixed2 (5 * exp (LAMBDA_GA * 30)) @ '' mCi (simulation)'')\<rparr>"

definition exO2_simulated :: Order where
  "exO2_simulated =
     exO2\<lparr>assigned_elute_dt := Some exT1040,
          assignedGeneratorIds := Some [''G1''],
          assigned_delta_minutes := Some [160],
          notes_ord := Some (''Single generator G1; required @ elute ''
                               @ toFixed2 (5 * exp (LAMBDA_GA * 30)) @ '' mCi (simulation)'')\<rparr>"

lemma sim_step_exO1:
  "simOrder lc exSimOptions True [Suc 0]
     \<lparr>heap_s = [exG1, exG1], usedFirst_s = {}, resultOrders_s = [], msgs_s = []\<rparr> exO1
   = \<lparr>heap_s = [exG1, exG1], usedFirst_s = {''G1''},
      resultOrders_s = [exO1_simulated],
      msgs_s = [''Sim O1: assigned G1 at 2025-01-01T10:30'']\<rparr>"
proof -
  have e: "eligible_c exSimCand1" by (simp add: exSimCand1_def)
  show ?thesis
    by (simp add: simOrder_def req_exO1 sim_cand_first sort_by_def choose_exSimCand1 Let_def
        format_1030 text_1030 e exO1_simulated_def)
qed

lemma sim_step_exO2:
  "simOrder lc exSimOptions True [Suc 0]
     \<lparr>heap_s = [exG1, exG1], usedFirst_s = {''G1''}, resultOrders_s = os, msgs_s = ms\<rparr> exO2
   = \<lparr>heap_s = [exG1, exG1], usedFirst_s = {''G1''},
      resultOrders_s = os @ [exO2_simulated],
      msgs_s = ms @ [''Sim O2: assigned G1 at 2025-01-01T10:40'']\<rparr>"
proof -
  have e: "eligible_c exSimCand2" by (simp add: exSimCand2_def)
  show ?thesis
    by (simp add: simOrder_def req_exO2 sim_cand_second sort_by_def choose_exSimCand2 Let_def
        format_1040 text_1040 e exO2_simulated_def)
qed

subsection \<open>An order that is too large, and a collation\<close>

definition exO3 :: Order where
  "exO3 = exO1\<lparr>id_ord := ''O3'', requested_mCi_at_cal := 500\<rparr>"

lemma exO3_fields [simp]: "product exO3 = PSMA" "id_ord exO3 = ''O3''"
  by (simp_all add: exO3_def exO1_def)

lemma req_exO3: "requiredAtElute_mCi exO3 =
    \<lparr>required = 500 * exp (LAMBDA_GA * 30), eluteDt = 1735727400000\<rparr>"
proof -
  have "parseLocalDateTimeYYYYMMDDTHHMM (calibration_dt_ord exO3) = 1735729200000"
    using parse_exO1 by (simp add: exO3_def)
  then show ?thesis
    by (simp add: requiredAtElute_mCi_def new_Date_value_def Let_def) (simp add: exO3_def exO1_def)
qed

lemma not_enough_for_exO3: "available_c exCand1 < 500 * exp (LAMBDA_GA * 30)"
proof -
  have g: "1 - exp (- LAMBDA_GA * 150) \<le> 1" by simp
  have "- LAMBDA_GA * 150 \<le> 0" using LAMBDA_GA_pos by simp
  then have "exp (- LAMBDA_GA * 150) \<le> 1" by (simp only: exp_le_one_iff)
  then have g0: "0 \<le> 1 - exp (- LAMBDA_GA * 150)" by simp
  have "- LAMBDA_GE * 150 \<le> 0" using LAMBDA_GE_pos by simp
  then have p: "exp (- LAMBDA_GE * 150) \<le> 1" by (simp only: exp_le_one_iff)
  have "exp (- LAMBDA_GE * 150) * (1 - exp (- LAMBDA_GA * 150)) \<le> 1 * 1"
    by (rule mult_mono [OF p g _ g0]) simp
  then have a: "available_c exCand1 \<le> 30" by (simp add: exCand1_def)
  have "0 \<le> LAMBDA_GA * 30" using LAMBDA_GA_pos by simp
  then have "1 \<le> exp (LAMBDA_GA * 30)" by (simp only: one_le_exp_iff)
  then have "500 \<le> 500 * exp (LAMBDA_GA * 30)" by simp
  with a show ?thesis by linarith
qed

text \<open>
  A collation for the worked day: strings by character code, which is how \<^verbatim>\<open>localeCompare\<close>
  orders identifiers made of digits and of letters of one case.
\<close>

fun codePointCompare :: "string \<Rightarrow> string \<Rightarrow> real" where
  "codePointCompare [] [] = 0"
| "codePointCompare [] (y # ys) = - 1"
| "codePointCompare (x # xs) [] = 1"
| "codePointCompare (x # xs) (y # ys) =
     (if (of_char x :: nat) < of_char y then - 1
      else if (of_char y :: nat) < of_char x then 1
      else codePointCompare xs ys)"

text \<open>A generator calibrated on a leap day: its last usable day is 28 February.\<close>

lemma leap_day_expiry:
  "formatLocal (generatorExpiryDate
     (exG1\<lparr>calibration_dt :=
        \<lparr>dt_year = 2024, dt_month = 2, dt_day = 29, dt_hour = 8, dt_minute = 0\<rparr>\<rparr>))
   = \<lparr>dt_year = 2025, dt_month = 2, dt_day = 28, dt_hour = 23, dt_minute = 59\<rparr>"
  by code_simp

section \<open>Claims about the decay model\<close>












section \<open>Claims about the generator updates\<close>

text \<open>
  Claim C1. After a rescan, the generators handed to the atomic write carry the last-elution
  time and the wear of the rescan's assignments. The code does not do this:
  \<open>assignOrdersEfficient\<close> changes its own copies and returns orders and messages only, and
  \<open>runRescan\<close> builds \<open>updatedById\<close> from the objects that it passed in. On the worked day the
  order is assigned to G1 for an elution at 10:30, and the generator that is written is G1 as it
  was: last eluted at 08:00, with no wear.
\<close>

theorem rescan_drops_generator_updates:
  "rescanWrite lc ''2025-01-01'' 20 [exO1] [0] [exG1] = ([exO1_assigned], [exG1])"
  by (simp add: rescanWrite_def runRescan_def alloc_def assign_exO1 fromEntries_def Let_def)

text \<open>
  Claim C2. In a simulation run, an order that is processed after an assignment to a generator
  sees that generator's working copy with the last elution advanced and the wear incremented, as
  in the standard policy. The code does not do this: the simulation records the first use only.
  On the worked day the second order (elution at 10:40) is assigned to G1 with 160 minutes of
  in-growth, counted from 08:00, although the first order eluted G1 at 10:30, ten minutes
  before and inside the lock window of 20 minutes; the working copy is unchanged at the end.
  The standard policy leaves the second order unmet (\<open>standard_locks_second_order\<close>).
\<close>

theorem simulation_keeps_last_elution:
  "assignOrdersEfficientSim lc [exO2, exO1] [0] exSimOptions [exG1] =
     (\<lparr>orders = [exO1_simulated, exO2_simulated],
       messages = [''Sim O1: assigned G1 at 2025-01-01T10:30'',
                   ''Sim O2: assigned G1 at 2025-01-01T10:40'']\<rparr>,
      [exG1, exG1])"
  by (simp add: assignOrdersEfficientSim_def alloc_def sorted_exO2_exO1 sim_step_exO1
      sim_step_exO2 Let_def)

section \<open>Claims about expiry and the standard policy\<close>

text \<open>
  Claim C5. For every generator whose calibration datetime is a well-formed datetime of local
  day \<open>D\<close>: \<open>isGeneratorExpired\<close> is false for an elute time of \<open>D\<close> + 1 year - 1 day at 23:59
  (\<open>lastUsableMinute\<close>: the day before the same date of the next year, as the \<^verbatim>\<open>Date\<close> object counts
  it), and true one minute later; and an expired generator is not eligible, neither in
  \<open>availableAtElute_mCi\<close> and the candidates of the standard policy, nor in the candidates of the
  simulation, whatever its options.
\<close>

theorem expiry_boundary:
  assumes wf: "wellFormedDT (calibration_dt gen)"
  shows "\<not> isGeneratorExpired gen (lastUsableMinute (calibration_dt gen)) \<and>
         isGeneratorExpired gen (lastUsableMinute (calibration_dt gen) + msPerMinute) \<and>
         (isGeneratorExpired gen t \<longrightarrow>
            \<not> eligible (availableAtElute_mCi gen t L) \<and>
            \<not> eligible_c (candidate L t gen) \<and>
            \<not> eligible_c (candidateSim options ignoreLockOnFirst usedFirst t gen))"
  using generatorExpiryDate_eq [OF wf] expired_not_eligible [of gen t]
  by (simp add: isGeneratorExpired_def msPerMinute_def)

theorem expiry_boundary_witness:
  "wellFormedDT (calibration_dt exG1) \<and>
   lastUsableMinute (calibration_dt exG1) = 1767225540000 \<and>
   \<not> isGeneratorExpired exG1 1767225540000 \<and>
   isGeneratorExpired exG1 1767225600000 \<and>
   \<not> eligible (availableAtElute_mCi exG1 1767225600000 20) \<and>
   \<not> eligible_c (candidate 20 1767225600000 exG1) \<and>
   \<not> eligible_c (candidateSim exSimOptions True {} 1767225600000 exG1)"
proof -
  have wf: "wellFormedDT (calibration_dt exG1)"
    by (simp add: wellFormedDT_def exT0800_def DaysInMonth_def)
  have lm: "lastUsableMinute exT0800 = 1767225540000"
    by code_simp
  from expiry_boundary [OF wf, of 1767225600000 20 exSimOptions True "{}"]
  show ?thesis
    using wf by (simp add: lm msPerMinute_def)
qed

text \<open>
  Claim C6. For every order that the standard policy processes, if no eligible candidate alone
  has the required activity and no two of the eligible candidates have it together, then the
  returned order is unmet (no assigned generator, no delta minutes, the note
  \<open>Insufficient availability. Required @ elute ... mCi.\<close>), the message says so, and the turn
  leaves the whole store as it was: no generator has another last elution, wear or wear date.
\<close>

theorem unmet_order_changes_nothing:
  assumes el: "el = filter eligible_c
                     (map (\<lambda>g. candidate L (eluteDt (requiredAtElute_mCi ord)) (heap st ! g)) gens)"
    and single: "\<forall>c\<in>set el. available_c c < required (requiredAtElute_mCi ord)"
    and pair: "\<forall>a b. {#a, b#} \<subseteq># mset el \<longrightarrow>
                 available_c a + available_c b < required (requiredAtElute_mCi ord)"
  shows "assignOrder lc today L gens byId st ord =
     \<lparr>heap = heap st,
      resultOrders = resultOrders st @
        [ord\<lparr>assigned_elute_dt := Some (formatLocal (eluteDt (requiredAtElute_mCi ord))),
             assignedGeneratorIds := Some [],
             assigned_delta_minutes := Some [],
             notes_ord := Some (''Insufficient availability. Required @ elute ''
                                  @ toFixed2 (required (requiredAtElute_mCi ord)) @ '' mCi.'')\<rparr>],
      msgs = msgs st @ [''Order '' @ id_ord ord @ '': unmet; insufficient availability.'']\<rparr>"
proof -
  let ?req = "required (requiredAtElute_mCi ord)"
  have "chooseGenerators (product ord) (sort_by (compareCandidates lc) el) ?req
      = \<lparr>assigned = [], assignedDelta = [], note_ch = []\<rparr>"
    using single pair by (intro chooseGenerators_none) (simp_all add: set_sort_by mset_sort_by)
  then show ?thesis
    by (simp add: assignOrder_def Let_def el)
qed

theorem unmet_order_changes_nothing_witness:
  "assignOrder codePointCompare ''2025-01-01'' 20 [Suc 0] (fromEntries [(''G1'', Suc 0)])
     \<lparr>heap = [exG1, exG1], resultOrders = [], msgs = []\<rparr> exO3
   = \<lparr>heap = [exG1, exG1],
      resultOrders =
        [exO3\<lparr>assigned_elute_dt := Some exT1030,
              assignedGeneratorIds := Some [],
              assigned_delta_minutes := Some [],
              notes_ord := Some (''Insufficient availability. Required @ elute ''
                                   @ toFixed2 (500 * exp (LAMBDA_GA * 30)) @ '' mCi.'')\<rparr>],
      msgs = [''Order O3: unmet; insufficient availability.'']\<rparr>"
proof -
  let ?st = "\<lparr>heap = [exG1, exG1], resultOrders = [], msgs = []\<rparr>"
  have e: "eligible_c exCand1" by (simp add: exCand1_def)
  have el: "[exCand1] = filter eligible_c
      (map (\<lambda>g. candidate 20 (eluteDt (requiredAtElute_mCi exO3)) (heap ?st ! g)) [Suc 0])"
    by (simp add: req_exO3 cand_exG1_1030 e)
  have single: "\<forall>c\<in>set [exCand1]. available_c c < required (requiredAtElute_mCi exO3)"
    using not_enough_for_exO3 by (simp add: req_exO3)
  have pair: "\<forall>a b. {#a, b#} \<subseteq># mset [exCand1] \<longrightarrow>
      available_c a + available_c b < required (requiredAtElute_mCi exO3)"
  proof (intro allI impI)
    fix a b assume "{#a, b#} \<subseteq># mset [exCand1]"
    then have "size {#a, b#} \<le> size (mset [exCand1])" by (rule size_mset_mono)
    then show "available_c a + available_c b < required (requiredAtElute_mCi exO3)" by simp
  qed
  from unmet_order_changes_nothing [OF el single pair,
      of codePointCompare "''2025-01-01''" "fromEntries [(''G1'', Suc 0)]"]
  show ?thesis by (simp add: req_exO3 format_1030)
qed





end
